theory Spec2Isabelle
  imports Main "HOL-Library.Word" "HOL-Library.Monad_Syntax"
begin

section \<open>Common data\<close>

text \<open>
  Function pointers are identified by the name of the function they point to; a null
  function pointer is \<open>None\<close>. Untyped \<open>void *\<close> closure arguments are opaque.
\<close>

type_synonym fn = string

datatype ptr = Null | Self | Opaque nat

text \<open>
  Status codes. Functions returning \<open>int\<close> return \<open>OK\<close> for 0; functions that
  report through \<open>errno\<close> return what they wrote to it (\<open>None\<close>: nothing written).
\<close>

datatype errno = OK | EINVAL | EALREADY | Errnum nat

type_synonym daemon = nat
type_synonym MHD_Connection = nat
type_synonym pthread = nat

datatype MHD_Result = MHD_NO | MHD_YES

section \<open>Server container\<close>

record sg__httpreq_isolated =
  thread :: pthread
  iso_con :: MHD_Connection

record sg_httpsrv =
  auth_cb :: "fn option"
  req_cb :: fn
  err_cb :: fn
  cls :: ptr
  cli_cb :: "fn option"
  cli_cls :: ptr
  upld_cb :: "fn option"
  upld_cls :: ptr
  upld_write_cb :: "fn option"
  upld_free_cb :: "fn option"
  upld_save_cb :: "fn option"
  upld_save_as_cb :: "fn option"
  uplds_dir :: "string option"
  post_buf_size :: "64 word"
  payld_limit :: "64 word"
  uplds_limit :: "64 word"
  thr_pool_size :: "32 word"
  con_timeout :: "32 word"
  con_limit :: "32 word"
  handle :: "daemon option"
  isolated_list :: "sg__httpreq_isolated list"

text \<open>
  What the constructor takes from its platform: the build profile (\<open>__arm__\<close>), whether
  \<open>sg_alloc\<close> succeeds, the result of \<open>sg_tmpdir\<close> and the return value of
  \<open>pthread_mutex_init\<close>. \<open>sg_alloc\<close> hands out zeroed memory, so every field the
  constructor does not assign is a null pointer or 0. In the server record \<open>size_t\<close> is
  64 bits wide and \<open>unsigned int\<close> 32; the request and error callbacks are never null,
  since the constructor refuses to build a server without them.
\<close>

record platform =
  arm :: bool
  sg_alloc_ok :: bool
  sg_tmpdir :: "string option"
  pthread_mutex_init :: nat

definition sg_httpsrv_new2 ::
  "platform \<Rightarrow> fn option \<Rightarrow> fn option \<Rightarrow> fn option \<Rightarrow> ptr \<Rightarrow>
     sg_httpsrv option \<times> errno option" where
  "sg_httpsrv_new2 pf auth_cb' req_cb' err_cb' cls' =
     (case (req_cb', err_cb') of
        (Some rcb, Some ecb) \<Rightarrow>
          if \<not> sg_alloc_ok pf then (None, None)
          else (case sg_tmpdir pf of
                  None \<Rightarrow> (None, None)
                | Some dir \<Rightarrow>
                    if pthread_mutex_init pf \<noteq> 0
                    then (None, Some (Errnum (pthread_mutex_init pf)))
                    else (Some \<lparr>auth_cb = auth_cb', req_cb = rcb, err_cb = ecb, cls = cls',
                                cli_cb = None, cli_cls = Null,
                                upld_cb = Some ''sg__httpupld_cb'', upld_cls = Self,
                                upld_write_cb = Some ''sg__httpupld_write_cb'',
                                upld_free_cb = Some ''sg__httpupld_free_cb'',
                                upld_save_cb = Some ''sg__httpupld_save_cb'',
                                upld_save_as_cb = Some ''sg__httpupld_save_as_cb'',
                                uplds_dir = Some dir,
                                post_buf_size = (if arm pf then 1024 else 4096),
                                payld_limit = (if arm pf then 1048576 else 4194304),
                                uplds_limit = (if arm pf then 16777216 else 67108864),
                                thr_pool_size = 0, con_timeout = 0, con_limit = 0,
                                handle = None, isolated_list = []\<rparr>, None))
      | _ \<Rightarrow> (None, Some EINVAL))"

definition sg_httpsrv_new :: "platform \<Rightarrow> fn option \<Rightarrow> ptr \<Rightarrow> sg_httpsrv option \<times> errno option" where
  "sg_httpsrv_new pf cb cls' = sg_httpsrv_new2 pf None cb (Some ''sg__err_cb'') cls'"

text \<open>Calls into the engine made by the server container, in the order they are made.\<close>

datatype engine_call = Stop_daemon daemon

definition sg_httpsrv_shutdown ::
  "sg_httpsrv option \<Rightarrow> errno \<times> sg_httpsrv option \<times> engine_call list" where
  "sg_httpsrv_shutdown srv =
     (case srv of
        None \<Rightarrow> (EINVAL, None, [])
      | Some s \<Rightarrow>
          (case handle s of
             None \<Rightarrow> (EALREADY, Some s, [])
           | Some h \<Rightarrow> (OK, Some (s\<lparr>handle := None\<rparr>), [Stop_daemon h])))"

text \<open>
  A caller that invokes \<open>sg_httpsrv_shutdown\<close> \<open>n\<close> times in a row on the same server,
  collecting the status codes and the engine calls.
\<close>

fun shutdown_calls ::
  "nat \<Rightarrow> sg_httpsrv option \<Rightarrow> errno list \<times> sg_httpsrv option \<times> engine_call list" where
  "shutdown_calls 0 srv = ([], srv, [])"
| "shutdown_calls (Suc n) srv =
     (case sg_httpsrv_shutdown srv of
        (rc, srv', cs) \<Rightarrow>
          (case shutdown_calls n srv' of
             (rcs, srv'', cs') \<Rightarrow> (rc # rcs, srv'', cs @ cs')))"

definition sg_httpsrv_set_upld_cbs ::
  "sg_httpsrv option \<Rightarrow> fn option \<Rightarrow> ptr \<Rightarrow> fn option \<Rightarrow> fn option \<Rightarrow> fn option \<Rightarrow>
     fn option \<Rightarrow> errno \<times> sg_httpsrv option" where
  "sg_httpsrv_set_upld_cbs srv cb cls' write_cb free_cb save_cb save_as_cb =
     (case srv of
        None \<Rightarrow> (EINVAL, None)
      | Some s \<Rightarrow>
          if cb = None \<or> write_cb = None \<or> save_cb = None \<or> save_as_cb = None
          then (EINVAL, Some s)
          else (OK, Some (s\<lparr>upld_cb := cb, upld_write_cb := write_cb,
                             upld_free_cb := free_cb, upld_save_cb := save_cb,
                             upld_save_as_cb := save_as_cb, upld_cls := cls'\<rparr>)))"

definition sg_httpsrv_set_post_buf_size ::
  "sg_httpsrv option \<Rightarrow> 64 word \<Rightarrow> errno \<times> sg_httpsrv option" where
  "sg_httpsrv_set_post_buf_size srv size' =
     (case srv of
        None \<Rightarrow> (EINVAL, None)
      | Some s \<Rightarrow>
          if size' < 256 then (EINVAL, Some s)
          else (OK, Some (s\<lparr>post_buf_size := size'\<rparr>)))"

text \<open>A host platform on which construction succeeds, and the server it gives.\<close>

definition pf0 :: platform where
  "pf0 = \<lparr>arm = False, sg_alloc_ok = True, sg_tmpdir = Some ''/tmp'', pthread_mutex_init = 0\<rparr>"

definition srv0 :: sg_httpsrv where
  "srv0 = \<lparr>auth_cb = None, req_cb = ''req_cb'', err_cb = ''sg__err_cb'', cls = Null,
           cli_cb = None, cli_cls = Null,
           upld_cb = Some ''sg__httpupld_cb'', upld_cls = Self,
           upld_write_cb = Some ''sg__httpupld_write_cb'',
           upld_free_cb = Some ''sg__httpupld_free_cb'',
           upld_save_cb = Some ''sg__httpupld_save_cb'',
           upld_save_as_cb = Some ''sg__httpupld_save_as_cb'',
           uplds_dir = Some ''/tmp'',
           post_buf_size = 4096, payld_limit = 4194304, uplds_limit = 67108864,
           thr_pool_size = 0, con_timeout = 0, con_limit = 0,
           handle = None, isolated_list = []\<rparr>"

section \<open>Listening\<close>

text \<open>
  The engine's flag word is the set of the flag macros or-ed into it. An entry of the
  option array carries the option, its integer value and its pointer value. The port of a
  socket address is kept as the port number (the C field holds it in network byte order).
\<close>

datatype MHD_FLAG =
    MHD_USE_ITC | MHD_USE_ERROR_LOG | MHD_ALLOW_SUSPEND_RESUME
  | MHD_USE_INTERNAL_POLLING_THREAD | MHD_USE_THREAD_PER_CONNECTION
  | MHD_USE_AUTO_INTERNAL_THREAD | MHD_USE_DUAL_STACK | MHD_USE_TLS

datatype MHD_OPTION =
    MHD_OPTION_EXTERNAL_LOGGER | MHD_OPTION_SOCK_ADDR | MHD_OPTION_NOTIFY_COMPLETED
  | MHD_OPTION_NOTIFY_CONNECTION | MHD_OPTION_CONNECTION_LIMIT
  | MHD_OPTION_CONNECTION_TIMEOUT | MHD_OPTION_THREAD_POOL_SIZE
  | MHD_OPTION_HTTPS_MEM_KEY | MHD_OPTION_HTTPS_KEY_PASSWORD | MHD_OPTION_HTTPS_MEM_CERT
  | MHD_OPTION_HTTPS_MEM_TRUST | MHD_OPTION_HTTPS_MEM_DHPARAMS
  | MHD_OPTION_HTTPS_PRIORITIES | MHD_OPTION_LISTEN_BACKLOG_SIZE | MHD_OPTION_END

datatype sockaddr = Sockaddr_in "16 word" "32 word" | Sockaddr_in6 "16 word" "128 word"

datatype intptr = Num nat | Fn fn

datatype optptr = PNull | PSrv | PStr string | PSockaddr sockaddr

record MHD_OptionItem =
  opt_option :: MHD_OPTION
  opt_value :: intptr
  opt_ptr_value :: optptr

text \<open>
  What \<open>sg__httpsrv_listen2\<close> takes from outside this file: the size of the error buffer,
  the two literal parsers (\<open>Some a\<close> when \<open>inet_pton\<close> returns 1) and the engine's start
  function (\<open>None\<close> when the engine fails to start).
\<close>

record net =
  SG_ERR_SIZE :: nat
  inet_pton_AF_INET :: "string \<Rightarrow> 32 word option"
  inet_pton_AF_INET6 :: "string \<Rightarrow> 128 word option"
  MHD_start_daemon :: "MHD_FLAG set \<Rightarrow> 16 word \<Rightarrow> MHD_OptionItem list \<Rightarrow> daemon option"

text \<open>
  What a call of listen leaves behind: the return value, the server, the value written to
  \<open>errno\<close>, the texts handed to the server's error callback and the arguments of the call
  of \<open>MHD_start_daemon\<close>, when it was made.
\<close>

record listen_result =
  lr_ret :: bool
  lr_srv :: "sg_httpsrv option"
  lr_errno :: "errno option"
  lr_err_cb :: "string list"
  lr_start_daemon :: "(MHD_FLAG set \<times> 16 word \<times> MHD_OptionItem list) option"

text \<open>
  The option array has 14 entries and \<open>pos\<close> is the number of entries written so far,
  here the length of the list. A write at position 14 is outside the array: the behaviour
  of the C function is undefined from there on, which is the result \<open>None\<close>.
\<close>

definition sg__httpsrv_addopt ::
  "MHD_OptionItem list \<Rightarrow> MHD_OPTION \<Rightarrow> intptr \<Rightarrow> optptr \<Rightarrow> MHD_OptionItem list option" where
  "sg__httpsrv_addopt ops opt val p =
     (if length ops < 14
      then Some (ops @ [\<lparr>opt_option = opt, opt_value = val, opt_ptr_value = p\<rparr>])
      else None)"

text \<open>Formatting into a buffer of the given size keeps at most \<open>size - 1\<close> characters.\<close>

definition vsnprintf :: "nat \<Rightarrow> string \<Rightarrow> string" where
  "vsnprintf size' text = take (size' - 1) text"

text \<open>
  \<open>sg__httpsrv_listen2\<close> in four pieces, in source order: the initial flags, the
  notification hooks and tuning options, the TLS block, and the end marker with the start
  of the engine. The last definition is the function itself: argument check, logger, host
  resolution, then the rest.
\<close>

definition listen2_flags :: "bool \<Rightarrow> MHD_FLAG set" where
  "listen2_flags threaded =
     {MHD_USE_ITC, MHD_USE_ERROR_LOG, MHD_ALLOW_SUSPEND_RESUME} \<union>
     (if threaded
      then {MHD_USE_INTERNAL_POLLING_THREAD, MHD_USE_THREAD_PER_CONNECTION}
      else {MHD_USE_AUTO_INTERNAL_THREAD})"

definition listen2_notify_tuning :: "sg_httpsrv \<Rightarrow> MHD_OptionItem list \<Rightarrow> MHD_OptionItem list option" where
  "listen2_notify_tuning s ops0 = do {
     ops \<leftarrow> sg__httpsrv_addopt ops0 MHD_OPTION_NOTIFY_COMPLETED (Fn ''sg__httpsrv_rcc'') PSrv;
     ops \<leftarrow> sg__httpsrv_addopt ops MHD_OPTION_NOTIFY_CONNECTION (Fn ''sg__httpsrv_ncc'') PSrv;
     ops \<leftarrow> (if con_limit s > 0
              then sg__httpsrv_addopt ops MHD_OPTION_CONNECTION_LIMIT (Num (unat (con_limit s))) PNull
              else Some ops);
     ops \<leftarrow> (if con_timeout s > 0
              then sg__httpsrv_addopt ops MHD_OPTION_CONNECTION_TIMEOUT (Num (unat (con_timeout s))) PNull
              else Some ops);
     (if thr_pool_size s > 0
      then sg__httpsrv_addopt ops MHD_OPTION_THREAD_POOL_SIZE (Num (unat (thr_pool_size s))) PNull
      else Some ops)
   }"

definition listen2_tls ::
  "string option \<Rightarrow> string option \<Rightarrow> string option \<Rightarrow> string option \<Rightarrow> string option \<Rightarrow>
   string option \<Rightarrow> 32 word \<Rightarrow> MHD_FLAG set \<Rightarrow> MHD_OptionItem list \<Rightarrow>
   (MHD_FLAG set \<times> MHD_OptionItem list) option" where
  "listen2_tls key pwd cert trust dhparams priorities backlog flags ops0 =
     (case (key, cert) of
        (Some k, Some c) \<Rightarrow> do {
          ops \<leftarrow> sg__httpsrv_addopt ops0 MHD_OPTION_HTTPS_MEM_KEY (Num 0) (PStr k);
          ops \<leftarrow> (case pwd of
                    Some p \<Rightarrow> sg__httpsrv_addopt ops MHD_OPTION_HTTPS_KEY_PASSWORD (Num 0) (PStr p)
                  | None \<Rightarrow> Some ops);
          ops \<leftarrow> sg__httpsrv_addopt ops MHD_OPTION_HTTPS_MEM_CERT (Num 0) (PStr c);
          ops \<leftarrow> (case trust of
                    Some t \<Rightarrow> sg__httpsrv_addopt ops MHD_OPTION_HTTPS_MEM_TRUST (Num 0) (PStr t)
                  | None \<Rightarrow> Some ops);
          ops \<leftarrow> (case dhparams of
                    Some d \<Rightarrow> sg__httpsrv_addopt ops MHD_OPTION_HTTPS_MEM_DHPARAMS (Num 0) (PStr d)
                  | None \<Rightarrow> Some ops);
          ops \<leftarrow> (case priorities of
                    Some p \<Rightarrow> sg__httpsrv_addopt ops MHD_OPTION_HTTPS_PRIORITIES (Num 0) (PStr p)
                  | None \<Rightarrow> Some ops);
          ops \<leftarrow> (if backlog > 0
                   then sg__httpsrv_addopt ops MHD_OPTION_LISTEN_BACKLOG_SIZE (Num (unat backlog)) PNull
                   else Some ops);
          Some (insert MHD_USE_TLS flags, ops)
        }
      | _ \<Rightarrow> Some (flags, ops0))"

definition listen2_start ::
  "net \<Rightarrow> sg_httpsrv \<Rightarrow> string option \<Rightarrow> string option \<Rightarrow> string option \<Rightarrow> string option \<Rightarrow>
   string option \<Rightarrow> string option \<Rightarrow> 16 word \<Rightarrow> 32 word \<Rightarrow> MHD_FLAG set \<Rightarrow>
   MHD_OptionItem list \<Rightarrow> listen_result option" where
  "listen2_start nt s key pwd cert trust dhparams priorities port backlog flags0 ops0 = do {
     ops \<leftarrow> listen2_notify_tuning s ops0;
     (flags, ops) \<leftarrow> listen2_tls key pwd cert trust dhparams priorities backlog flags0 ops;
     ops \<leftarrow> sg__httpsrv_addopt ops MHD_OPTION_END (Num 0) PNull;
     let h = MHD_start_daemon nt flags port ops;
     Some \<lparr>lr_ret = (h \<noteq> None), lr_srv = Some (s\<lparr>handle := h\<rparr>), lr_errno = None,
           lr_err_cb = [], lr_start_daemon = Some (flags, port, ops)\<rparr>
   }"

definition sg__httpsrv_listen2 ::
  "net \<Rightarrow> sg_httpsrv option \<Rightarrow> string option \<Rightarrow> string option \<Rightarrow> string option \<Rightarrow>
   string option \<Rightarrow> string option \<Rightarrow> string option \<Rightarrow> string option \<Rightarrow> 16 word \<Rightarrow>
   32 word \<Rightarrow> bool \<Rightarrow> listen_result option" where
  "sg__httpsrv_listen2 nt srv key pwd cert trust dhparams priorities hostname port backlog threaded =
     (case srv of
        None \<Rightarrow> Some \<lparr>lr_ret = False, lr_srv = None, lr_errno = Some EINVAL,
                       lr_err_cb = [], lr_start_daemon = None\<rparr>
      | Some s \<Rightarrow>
          if upld_cb s = None \<or> upld_write_cb s = None \<or> upld_save_cb s = None \<or>
             upld_save_as_cb s = None \<or> uplds_dir s = None \<or> post_buf_size s < 256
          then Some \<lparr>lr_ret = False, lr_srv = Some s, lr_errno = Some EINVAL,
                     lr_err_cb = [], lr_start_daemon = None\<rparr>
          else do {
            let flags = listen2_flags threaded;
            ops \<leftarrow> sg__httpsrv_addopt [] MHD_OPTION_EXTERNAL_LOGGER (Fn ''sg__httpsrv_oel'') PSrv;
            (case hostname of
               Some h \<Rightarrow>
                 (case inet_pton_AF_INET nt h of
                    Some a \<Rightarrow> do {
                      ops \<leftarrow> sg__httpsrv_addopt ops MHD_OPTION_SOCK_ADDR (Num 0)
                               (PSockaddr (Sockaddr_in port a));
                      listen2_start nt s key pwd cert trust dhparams priorities port backlog flags ops
                    }
                  | None \<Rightarrow>
                      (case inet_pton_AF_INET6 nt h of
                         None \<Rightarrow>
                           Some \<lparr>lr_ret = False, lr_srv = Some s, lr_errno = Some EINVAL,
                                 lr_err_cb = [vsnprintf (SG_ERR_SIZE nt)
                                                (''Invalid host name: '' @ h @ ''.'' @ [CHR 0x0A])],
                                 lr_start_daemon = None\<rparr>
                       | Some a6 \<Rightarrow> do {
                           ops \<leftarrow> sg__httpsrv_addopt ops MHD_OPTION_SOCK_ADDR (Num 0)
                                    (PSockaddr (Sockaddr_in6 port a6));
                           listen2_start nt s key pwd cert trust dhparams priorities port backlog
                             (insert MHD_USE_DUAL_STACK flags) ops
                         }))
             | None \<Rightarrow>
                 listen2_start nt s key pwd cert trust dhparams priorities port backlog
                   (insert MHD_USE_DUAL_STACK flags) ops)
          })"

definition sg__httpsrv_listen ::
  "net \<Rightarrow> sg_httpsrv option \<Rightarrow> string option \<Rightarrow> string option \<Rightarrow> string option \<Rightarrow>
   string option \<Rightarrow> string option \<Rightarrow> string option \<Rightarrow> 16 word \<Rightarrow> bool \<Rightarrow> listen_result option" where
  "sg__httpsrv_listen nt srv key pwd cert trust dhparams priorities port threaded =
     sg__httpsrv_listen2 nt srv key pwd cert trust dhparams priorities None port 0 threaded"

definition sg_httpsrv_listen2 ::
  "net \<Rightarrow> sg_httpsrv option \<Rightarrow> string option \<Rightarrow> 16 word \<Rightarrow> 32 word \<Rightarrow> bool \<Rightarrow> listen_result option" where
  "sg_httpsrv_listen2 nt srv hostname port backlog threaded =
     sg__httpsrv_listen2 nt srv None None None None None None hostname port backlog threaded"

definition sg_httpsrv_listen ::
  "net \<Rightarrow> sg_httpsrv option \<Rightarrow> 16 word \<Rightarrow> bool \<Rightarrow> listen_result option" where
  "sg_httpsrv_listen nt srv port threaded =
     sg__httpsrv_listen nt srv None None None None None None port threaded"

text \<open>
  A network environment for concrete runs: one IPv4 literal, one IPv6 literal, and an
  engine that starts. \<open>srv_no_free\<close> is the constructed server after the upload hooks
  were set again with a null free hook; \<open>srv_full\<close> has every tuning option configured.
\<close>

definition net0 :: net where
  "net0 = \<lparr>SG_ERR_SIZE = 256,
           inet_pton_AF_INET = (\<lambda>h. if h = ''127.0.0.1'' then Some 0x7F000001 else None),
           inet_pton_AF_INET6 = (\<lambda>h. if h = ''::1'' then Some 1 else None),
           MHD_start_daemon = (\<lambda>flags port ops. Some 1)\<rparr>"



definition srv_no_free :: sg_httpsrv where
  "srv_no_free = srv0\<lparr>upld_free_cb := None\<rparr>"

definition srv_full :: sg_httpsrv where
  "srv_full = srv0\<lparr>con_limit := 100, con_timeout := 30, thr_pool_size := 4\<rparr>"

text \<open>
  The bind addresses the engine finds in an option array, the argument check of listen as
  a predicate, and the two entries written before the hooks.
\<close>

definition sock_addrs :: "MHD_OptionItem list \<Rightarrow> optptr list" where
  "sock_addrs ops = map opt_ptr_value (filter (\<lambda>i. opt_option i = MHD_OPTION_SOCK_ADDR) ops)"

definition listen_args_ok :: "sg_httpsrv \<Rightarrow> bool" where
  "listen_args_ok s \<longleftrightarrow> upld_cb s \<noteq> None \<and> upld_write_cb s \<noteq> None \<and> upld_save_cb s \<noteq> None \<and>
     upld_save_as_cb s \<noteq> None \<and> uplds_dir s \<noteq> None \<and> 256 \<le> post_buf_size s"


definition logger_item :: MHD_OptionItem where
  "logger_item = \<lparr>opt_option = MHD_OPTION_EXTERNAL_LOGGER, opt_value = Fn ''sg__httpsrv_oel'',
                  opt_ptr_value = PSrv\<rparr>"

definition sock_addr_item :: "sockaddr \<Rightarrow> MHD_OptionItem" where
  "sock_addr_item sa = \<lparr>opt_option = MHD_OPTION_SOCK_ADDR, opt_value = Num 0,
                        opt_ptr_value = PSockaddr sa\<rparr>"


section \<open>Requests, responses and the Auth object\<close>

text \<open>
  The structures behind a connection, with the fields the sources and the tests use. A
  response keeps the connection it answers, the engine's response object once one was
  composed, its headers, its status and the verdict \<open>ret\<close> for the engine. A string map
  is a pointer to its entries; the null pointer is the map without entries.
\<close>

datatype MHD_Response = MHD_Response

type_synonym sg_strmap = "(string \<times> string) list option"

record sg_httpres =
  con :: "MHD_Connection option"
  res_handle :: "MHD_Response option"
  res_headers :: sg_strmap
  status :: "32 word"
  ret :: MHD_Result

text \<open>
  The Auth object refers to the response of its request: \<open>req->res\<close> and
  \<open>req->auth->res\<close> are one object, kept here inside the Auth record.
\<close>

record sg_httpauth =
  res :: sg_httpres
  realm :: "string option"
  canceled :: bool
  auth_usr :: "string option"
  auth_pwd :: "string option"

record sg_httpreq =
  auth :: sg_httpauth
  req_version :: "string option"
  req_method :: "string option"
  req_path :: "string option"
  headers :: sg_strmap
  cookies :: sg_strmap
  params :: sg_strmap
  req_fields :: sg_strmap
  is_uploading :: bool
  isolated :: bool
  user_data :: ptr

section \<open>Connection dispatcher\<close>

text \<open>
  What \<open>sg__httpsrv_ahc\<close> calls outside its file, over an engine state \<open>'e\<close> that every
  call may change: the engine's two connection queries (\<open>None\<close> for a null info pointer),
  the request constructor, the user's callbacks, the Auth Gate's dispatch, the Upload
  Engine and the delivery of the response.
\<close>

record 'e dispatcher =
  socket_context :: "'e \<Rightarrow> MHD_Connection \<Rightarrow> bool option"
  connection_suspended :: "'e \<Rightarrow> MHD_Connection \<Rightarrow> bool option"
  sg__httpreq_new ::
    "sg_httpsrv \<Rightarrow> MHD_Connection option \<Rightarrow> string option \<Rightarrow> string option \<Rightarrow> string option \<Rightarrow>
       sg_httpreq option"
  run_auth_cb :: "fn \<Rightarrow> 'e \<Rightarrow> sg_httpreq \<Rightarrow> bool \<times> 'e \<times> sg_httpreq"
  auth_dispatch :: "'e \<Rightarrow> sg_httpauth \<Rightarrow> bool \<times> 'e \<times> sg_httpauth"
  sg__httpuplds_process ::
    "sg_httpsrv \<Rightarrow> 'e \<Rightarrow> sg_httpreq \<Rightarrow> MHD_Connection option \<Rightarrow> string \<Rightarrow> 64 word \<Rightarrow>
       bool \<times> 'e \<times> sg_httpreq \<times> 64 word"
  run_req_cb :: "fn \<Rightarrow> 'e \<Rightarrow> sg_httpreq \<Rightarrow> 'e \<times> sg_httpreq"
  sg__httpres_dispatch :: "'e \<Rightarrow> sg_httpres \<Rightarrow> MHD_Result \<times> 'e"

text \<open>
  The calls the dispatcher makes during one invocation, in order, and what it leaves behind.
\<close>

datatype dispatcher_call =
    Call_auth_cb fn | Call_auth_dispatch | Call_uplds_process | Call_req_cb fn | Call_res_dispatch

record 'e ahc_result =
  ahc_ret :: MHD_Result
  ahc_engine :: 'e
  ahc_con_cls :: "sg_httpreq option"
  ahc_upld_data_size :: "64 word"
  ahc_calls :: "dispatcher_call list"

text \<open>
  \<open>sg__httpsrv_ahc\<close> in three pieces: the first callback of a connection (no request
  yet), the post-handler step shared by every later path, and the function itself.
  \<open>info_flag\<close> is the test \<open>info && info->flag\<close> on a non-null connection.
\<close>

definition set_ret :: "MHD_Result \<Rightarrow> sg_httpreq \<Rightarrow> sg_httpreq" where
  "set_ret v req = req\<lparr>auth := (auth req)\<lparr>res := (res (auth req))\<lparr>ret := v\<rparr>\<rparr>\<rparr>"

definition info_flag :: "('e \<Rightarrow> MHD_Connection \<Rightarrow> bool option) \<Rightarrow> 'e \<Rightarrow> MHD_Connection option \<Rightarrow> bool" where
  "info_flag q e con' = (case con' of None \<Rightarrow> False | Some c \<Rightarrow> q e c = Some True)"

definition ahc_start ::
  "'e dispatcher \<Rightarrow> sg_httpsrv \<Rightarrow> 'e \<Rightarrow> MHD_Connection option \<Rightarrow> string option \<Rightarrow> string option \<Rightarrow>
   string option \<Rightarrow> 64 word \<Rightarrow> 'e ahc_result" where
  "ahc_start d srv e con' url method' version' upld_data_size =
     (case sg__httpreq_new d srv con' version' method' url of
        None \<Rightarrow> \<lparr>ahc_ret = MHD_NO, ahc_engine = e, ahc_con_cls = None,
                  ahc_upld_data_size = upld_data_size, ahc_calls = []\<rparr>
      | Some req \<Rightarrow>
          (case auth_cb srv of
             None \<Rightarrow> \<lparr>ahc_ret = MHD_YES, ahc_engine = e, ahc_con_cls = Some req,
                       ahc_upld_data_size = upld_data_size, ahc_calls = []\<rparr>
           | Some cb \<Rightarrow>
               (case run_auth_cb d cb e req of
                  (b, e1, req1) \<Rightarrow>
                    (case auth_dispatch d e1 (auth (set_ret (if b then MHD_YES else MHD_NO) req1)) of
                       (ok, e2, a2) \<Rightarrow>
                         \<lparr>ahc_ret = (if \<not> ok then ret (res a2) else MHD_YES),
                          ahc_engine = e2, ahc_con_cls = Some (req1\<lparr>auth := a2\<rparr>),
                          ahc_upld_data_size = upld_data_size,
                          ahc_calls = [Call_auth_cb cb, Call_auth_dispatch]\<rparr>))))"

definition ahc_finish ::
  "'e dispatcher \<Rightarrow> 'e \<Rightarrow> MHD_Connection option \<Rightarrow> sg_httpreq \<Rightarrow> 64 word \<Rightarrow> dispatcher_call list \<Rightarrow>
   'e ahc_result" where
  "ahc_finish d e con' req upld_data_size calls =
     (if info_flag (connection_suspended d) e con'
      then \<lparr>ahc_ret = MHD_YES, ahc_engine = e, ahc_con_cls = Some req,
            ahc_upld_data_size = upld_data_size, ahc_calls = calls\<rparr>
      else (case sg__httpres_dispatch d e (res (auth req)) of
              (r, e') \<Rightarrow> \<lparr>ahc_ret = r, ahc_engine = e', ahc_con_cls = Some req,
                           ahc_upld_data_size = upld_data_size,
                           ahc_calls = calls @ [Call_res_dispatch]\<rparr>))"

definition sg__httpsrv_ahc ::
  "'e dispatcher \<Rightarrow> sg_httpsrv \<Rightarrow> 'e \<Rightarrow> MHD_Connection option \<Rightarrow> string option \<Rightarrow> string option \<Rightarrow>
   string option \<Rightarrow> string \<Rightarrow> 64 word \<Rightarrow> sg_httpreq option \<Rightarrow> 'e ahc_result" where
  "sg__httpsrv_ahc d srv e con' url method' version' upld_data upld_data_size con_cls =
     (if info_flag (socket_context d) e con'
      then \<lparr>ahc_ret = MHD_NO, ahc_engine = e, ahc_con_cls = con_cls,
            ahc_upld_data_size = upld_data_size, ahc_calls = []\<rparr>
      else (case con_cls of
              None \<Rightarrow> ahc_start d srv e con' url method' version' upld_data_size
            | Some req \<Rightarrow>
                if \<not> canceled (auth req)
                then (case sg__httpuplds_process d srv e req con' upld_data upld_data_size of
                        (terminal, e1, req1, size1) \<Rightarrow>
                          if terminal
                          then \<lparr>ahc_ret = ret (res (auth req1)), ahc_engine = e1,
                                ahc_con_cls = Some req1, ahc_upld_data_size = size1,
                                ahc_calls = [Call_uplds_process]\<rparr>
                          else if \<not> isolated req1
                          then (case run_req_cb d (req_cb srv) e1 req1 of
                                  (e2, req2) \<Rightarrow>
                                    ahc_finish d e2 con' req2 size1
                                      [Call_uplds_process, Call_req_cb (req_cb srv)])
                          else ahc_finish d e1 con' req1 size1 [Call_uplds_process])
                else ahc_finish d e con' req upld_data_size []))"

section \<open>String maps\<close>

text \<open>
  Modelled from the spec: the generic key-value map container (\<open>sg_strmap\<close>), which the
  spec places outside the core and whose source file is missing.
  Counting a null map gives 0, as the request tests use it.
\<close>

definition sg_strmap_count :: "sg_strmap \<Rightarrow> nat" where
  "sg_strmap_count m = (case m of None \<Rightarrow> 0 | Some xs \<Rightarrow> length xs)"

text \<open>
  Modelled from the spec: \<open>sg_strmap_add\<close> of the same container; adding appends one
  entry and allocates the map when the pointer was null.
\<close>

definition sg_strmap_add :: "sg_strmap \<Rightarrow> string \<Rightarrow> string \<Rightarrow> sg_strmap" where
  "sg_strmap_add m name val = Some ((case m of None \<Rightarrow> [] | Some xs \<Rightarrow> xs) @ [(name, val)])"

text \<open>
  Modelled from the spec: \<open>sg_strmap_get\<close> of the same container; the value stored
  under a name, if any.
\<close>

definition sg_strmap_get :: "sg_strmap \<Rightarrow> string \<Rightarrow> string option" where
  "sg_strmap_get m name = (case m of None \<Rightarrow> None | Some xs \<Rightarrow> map_of xs name)"

section \<open>Auth Gate\<close>



text \<open>
  Modelled from the spec: \<open>sg_httpauth_set_realm\<close>, whose source file is missing. A
  null Auth or value is an invalid argument; the first call stores the value; any later
  call fails with AlreadyDone and stores nothing.
\<close>

definition sg_httpauth_set_realm ::
  "sg_httpauth option \<Rightarrow> string option \<Rightarrow> errno \<times> sg_httpauth option" where
  "sg_httpauth_set_realm a realm' =
     (case (a, realm') of
        (Some au, Some v) \<Rightarrow>
          if realm au \<noteq> None then (EALREADY, Some au)
          else (OK, Some (au\<lparr>realm := Some v\<rparr>))
      | _ \<Rightarrow> (EINVAL, a))"




text \<open>
  Callers that make a series of \<open>sg_httpauth_set_realm\<close> or \<open>sg_httpauth_deny2\<close> calls
  with non-null strings on one Auth object, collecting the status codes. A denial call is
  valid when its status is in [100,600).
\<close>

fun set_realm_calls :: "sg_httpauth option \<Rightarrow> string list \<Rightarrow> errno list \<times> sg_httpauth option" where
  "set_realm_calls a [] = ([], a)"
| "set_realm_calls a (v # vs) =
     (case sg_httpauth_set_realm a (Some v) of
        (rc, a') \<Rightarrow> (case set_realm_calls a' vs of (rcs, a'') \<Rightarrow> (rc # rcs, a'')))"



section \<open>Request map accessors\<close>

text \<open>
  The accessors return the address of a map slot inside the request
  (\<open>struct sg_strmap **\<close>); the four addresses are the values of \<open>map_ref\<close>.
\<close>

datatype map_ref = Headers_slot | Cookies_slot | Params_slot | Fields_slot

text \<open>
  Modelled from the spec: \<open>sg_httpreq_headers\<close>, whose source file is missing. A null
  request gives a null result with \<open>EINVAL\<close>; otherwise the result is the address of the
  headers slot and \<open>errno\<close> is not written, as the request tests observe.
\<close>

definition sg_httpreq_headers :: "sg_httpreq option \<Rightarrow> map_ref option \<times> errno option" where
  "sg_httpreq_headers req = (case req of None \<Rightarrow> (None, Some EINVAL) | Some r \<Rightarrow> (Some Headers_slot, None))"

text \<open>
  Modelled from the spec: \<open>sg_httpreq_cookies\<close>, whose source file is missing. A null
  request gives a null result with \<open>EINVAL\<close>; otherwise the result is the address of the
  cookies slot and \<open>errno\<close> is not written, as the request tests observe.
\<close>

definition sg_httpreq_cookies :: "sg_httpreq option \<Rightarrow> map_ref option \<times> errno option" where
  "sg_httpreq_cookies req = (case req of None \<Rightarrow> (None, Some EINVAL) | Some r \<Rightarrow> (Some Cookies_slot, None))"

text \<open>
  Modelled from the spec: \<open>sg_httpreq_params\<close>, whose source file is missing. A null
  request gives a null result with \<open>EINVAL\<close>; otherwise the result is the address of the
  query parameters slot and \<open>errno\<close> is not written, as the request tests observe.
\<close>

definition sg_httpreq_params :: "sg_httpreq option \<Rightarrow> map_ref option \<times> errno option" where
  "sg_httpreq_params req = (case req of None \<Rightarrow> (None, Some EINVAL) | Some r \<Rightarrow> (Some Params_slot, None))"

text \<open>
  Modelled from the spec: \<open>sg_httpreq_fields\<close>, whose source file is missing. A null
  request gives a null result with \<open>EINVAL\<close>; otherwise the result is the address of the
  form fields slot and \<open>errno\<close> is not written, as the request tests observe.
\<close>

definition sg_httpreq_fields :: "sg_httpreq option \<Rightarrow> map_ref option \<times> errno option" where
  "sg_httpreq_fields req = (case req of None \<Rightarrow> (None, Some EINVAL) | Some r \<Rightarrow> (Some Fields_slot, None))"

text \<open>
  Reading and writing through a slot address, and \<open>sg_strmap_add\<close> called with a slot
  address as its first argument, as the tests call it with \<open>&req->headers\<close>.
\<close>

fun deref :: "sg_httpreq \<Rightarrow> map_ref \<Rightarrow> sg_strmap" where
  "deref r Headers_slot = headers r"
| "deref r Cookies_slot = cookies r"
| "deref r Params_slot = params r"
| "deref r Fields_slot = req_fields r"

fun store :: "sg_httpreq \<Rightarrow> map_ref \<Rightarrow> sg_strmap \<Rightarrow> sg_httpreq" where
  "store r Headers_slot m = r\<lparr>headers := m\<rparr>"
| "store r Cookies_slot m = r\<lparr>cookies := m\<rparr>"
| "store r Params_slot m = r\<lparr>params := m\<rparr>"
| "store r Fields_slot m = r\<lparr>req_fields := m\<rparr>"

definition sg_strmap_add_at :: "sg_httpreq \<Rightarrow> map_ref \<Rightarrow> string \<Rightarrow> string \<Rightarrow> sg_httpreq" where
  "sg_strmap_add_at r p name val = store r p (sg_strmap_add (deref r p) name val)"

section \<open>Concrete requests and dispatchers\<close>

text \<open>
  A fresh response, Auth object and request on connection 1; a dispatcher environment
  whose engine never suspends, whose Upload Engine never ends the request and whose
  handler leaves a mark in the user data; the Auth object after a denial with status 403.
\<close>

definition res0 :: sg_httpres where
  "res0 = \<lparr>con = Some 1, res_handle = None, res_headers = None, status = 0, ret = MHD_NO\<rparr>"

definition auth0 :: sg_httpauth where
  "auth0 = \<lparr>res = res0, realm = None, canceled = False, auth_usr = None, auth_pwd = None\<rparr>"

definition req0 :: sg_httpreq where
  "req0 = \<lparr>auth = auth0, req_version = Some ''HTTP/1.1'', req_method = Some ''GET'',
           req_path = Some ''/'', headers = None, cookies = None, params = None, req_fields = None,
           is_uploading = False, isolated = False, user_data = Null\<rparr>"







section \<open>Server container: results\<close>

lemma new_gives_srv0: "sg_httpsrv_new pf0 (Some ''req_cb'') Null = (Some srv0, None)"
  by (simp add: sg_httpsrv_new_def sg_httpsrv_new2_def pf0_def srv0_def)

lemma new2_handle_None:
  "sg_httpsrv_new2 pf a r e c = (Some s, w) \<Longrightarrow> handle s = None"
  by (auto simp: sg_httpsrv_new2_def split: option.splits if_splits)

lemma shutdown_calls_no_handle:
  "handle s = None \<Longrightarrow> shutdown_calls n (Some s) = (replicate n EALREADY, Some s, [])"
  by (induction n) (simp_all add: sg_httpsrv_shutdown_def)

text \<open>
  C5. Shutdown is idempotent. On a server whose engine handle is live, the first call
  stops the engine once, clears the handle and returns 0; each of the \<open>n\<close> calls that
  follow returns \<open>EALREADY\<close>, makes no engine call and leaves the server as the first call
  left it. On a server without a handle, which is what the constructor returns, every
  call returns \<open>EALREADY\<close> and the server is unchanged.
\<close>

theorem shutdown_idempotent:
  "(handle s = Some h \<longrightarrow>
      sg_httpsrv_shutdown (Some s) = (OK, Some (s\<lparr>handle := None\<rparr>), [Stop_daemon h]) \<and>
      shutdown_calls (Suc n) (Some s) =
        (OK # replicate n EALREADY, Some (s\<lparr>handle := None\<rparr>), [Stop_daemon h])) \<and>
   (handle s = None \<longrightarrow>
      sg_httpsrv_shutdown (Some s) = (EALREADY, Some s, []) \<and>
      shutdown_calls n (Some s) = (replicate n EALREADY, Some s, [])) \<and>
   (sg_httpsrv_new2 pf a r e c = (Some s, w) \<longrightarrow> handle s = None)"
proof (intro conjI impI)
  assume h: "handle s = Some h"
  show first: "sg_httpsrv_shutdown (Some s) = (OK, Some (s\<lparr>handle := None\<rparr>), [Stop_daemon h])"
    using h by (simp add: sg_httpsrv_shutdown_def)
  have "handle (s\<lparr>handle := None\<rparr>) = None" by simp
  then have "shutdown_calls n (Some (s\<lparr>handle := None\<rparr>)) =
      (replicate n EALREADY, Some (s\<lparr>handle := None\<rparr>), [])"
    by (rule shutdown_calls_no_handle)
  then show "shutdown_calls (Suc n) (Some s) =
      (OK # replicate n EALREADY, Some (s\<lparr>handle := None\<rparr>), [Stop_daemon h])"
    using first by simp
next
  assume n: "handle s = None"
  then show "sg_httpsrv_shutdown (Some s) = (EALREADY, Some s, [])"
    by (simp add: sg_httpsrv_shutdown_def)
  from n show "shutdown_calls n (Some s) = (replicate n EALREADY, Some s, [])"
    by (rule shutdown_calls_no_handle)
next
  assume "sg_httpsrv_new2 pf a r e c = (Some s, w)"
  then show "handle s = None" by (rule new2_handle_None)
qed

theorem shutdown_idempotent_witness:
  "handle (srv0\<lparr>handle := Some 7\<rparr>) = Some 7 \<and>
   shutdown_calls (Suc 2) (Some (srv0\<lparr>handle := Some 7\<rparr>)) =
     ([OK, EALREADY, EALREADY], Some srv0, [Stop_daemon 7]) \<and>
   handle srv0 = None \<and>
   shutdown_calls 2 (Some srv0) = ([EALREADY, EALREADY], Some srv0, []) \<and>
   sg_httpsrv_new2 pf0 None (Some ''req_cb'') (Some ''sg__err_cb'') Null = (Some srv0, None)"
proof -
  have a: "handle (srv0\<lparr>handle := Some 7\<rparr>) = Some 7" by simp
  have b: "handle srv0 = None" by (simp add: srv0_def)
  have c: "sg_httpsrv_new2 pf0 None (Some ''req_cb'') (Some ''sg__err_cb'') Null = (Some srv0, None)"
    using new_gives_srv0 by (simp add: sg_httpsrv_new_def)
  have e: "srv0\<lparr>handle := None\<rparr> = srv0" by (simp add: srv0_def)
  have n2: "replicate 2 EALREADY = [EALREADY, EALREADY]" by (simp add: numeral_2_eq_2)
  from shutdown_idempotent [of "srv0\<lparr>handle := Some 7\<rparr>" 7 2 pf0 None "Some ''req_cb''"
      "Some ''sg__err_cb''" Null None] a
  have "shutdown_calls (Suc 2) (Some (srv0\<lparr>handle := Some 7\<rparr>)) =
     (OK # replicate 2 EALREADY, Some (srv0\<lparr>handle := Some 7, handle := None\<rparr>), [Stop_daemon 7])"
    by blast
  then have p1: "shutdown_calls (Suc 2) (Some (srv0\<lparr>handle := Some 7\<rparr>)) =
     ([OK, EALREADY, EALREADY], Some srv0, [Stop_daemon 7])"
    using e n2 by simp
  from shutdown_idempotent [of srv0 0 2 pf0 None "Some ''req_cb''" "Some ''sg__err_cb''" Null None] b
  have "shutdown_calls 2 (Some srv0) = (replicate 2 EALREADY, Some srv0, [])"
    by blast
  then have p2: "shutdown_calls 2 (Some srv0) = ([EALREADY, EALREADY], Some srv0, [])"
    using n2 by simp
  show ?thesis using a b c p1 p2 by blast
qed

text \<open>
  C10. The upload-hook setter rejects a null server, upload callback, write hook, save
  hook or save-as hook with \<open>EINVAL\<close> and leaves the server as it was. The free hook is
  not among the checked arguments: with the other four given, a null free hook is
  installed (return value 0), replacing the default one the constructor had set.
\<close>

theorem set_upld_cbs_free_hook_unchecked:
  "fst (sg_httpsrv_set_upld_cbs None cb c wr fr sv sa) = EINVAL \<and>
   (cb = None \<or> wr = None \<or> sv = None \<or> sa = None \<longrightarrow>
      sg_httpsrv_set_upld_cbs (Some s) cb c wr fr sv sa = (EINVAL, Some s)) \<and>
   (cb \<noteq> None \<and> wr \<noteq> None \<and> sv \<noteq> None \<and> sa \<noteq> None \<longrightarrow>
      sg_httpsrv_set_upld_cbs (Some s) cb c wr None sv sa =
        (OK, Some (s\<lparr>upld_cb := cb, upld_write_cb := wr, upld_free_cb := None,
                     upld_save_cb := sv, upld_save_as_cb := sa, upld_cls := c\<rparr>))) \<and>
   (sg_httpsrv_new2 pf a r e c' = (Some s, w) \<longrightarrow>
      upld_free_cb s = Some ''sg__httpupld_free_cb'')"
  by (auto simp: sg_httpsrv_set_upld_cbs_def sg_httpsrv_new2_def split: option.splits if_splits)

theorem set_upld_cbs_free_hook_unchecked_witness:
  "sg_httpsrv_set_upld_cbs (Some srv0) None Null (Some ''w'') (Some ''f'') (Some ''s'') (Some ''a'')
     = (EINVAL, Some srv0) \<and>
   sg_httpsrv_set_upld_cbs (Some srv0) (Some ''u'') Null (Some ''w'') None (Some ''s'') (Some ''a'')
     = (OK, Some (srv0\<lparr>upld_cb := Some ''u'', upld_write_cb := Some ''w'', upld_free_cb := None,
                     upld_save_cb := Some ''s'', upld_save_as_cb := Some ''a'', upld_cls := Null\<rparr>)) \<and>
   sg_httpsrv_new2 pf0 None (Some ''req_cb'') (Some ''sg__err_cb'') Null = (Some srv0, None) \<and>
   upld_free_cb srv0 = Some ''sg__httpupld_free_cb''"
proof -
  have c: "sg_httpsrv_new2 pf0 None (Some ''req_cb'') (Some ''sg__err_cb'') Null = (Some srv0, None)"
    using new_gives_srv0 by (simp add: sg_httpsrv_new_def)
  have t1: "sg_httpsrv_set_upld_cbs (Some srv0) None Null (Some ''w'') (Some ''f'') (Some ''s'') (Some ''a'')
     = (EINVAL, Some srv0)"
    using set_upld_cbs_free_hook_unchecked [of None Null "Some ''w''" "Some ''f''" "Some ''s''"
        "Some ''a''" srv0 pf0 None "Some ''req_cb''" "Some ''sg__err_cb''" Null None]
    by blast
  have t2: "sg_httpsrv_set_upld_cbs (Some srv0) (Some ''u'') Null (Some ''w'') None (Some ''s'') (Some ''a'')
     = (OK, Some (srv0\<lparr>upld_cb := Some ''u'', upld_write_cb := Some ''w'', upld_free_cb := None,
                     upld_save_cb := Some ''s'', upld_save_as_cb := Some ''a'', upld_cls := Null\<rparr>))"
    using set_upld_cbs_free_hook_unchecked [of "Some ''u''" Null "Some ''w''" "Some ''f''" "Some ''s''"
        "Some ''a''" srv0 pf0 None "Some ''req_cb''" "Some ''sg__err_cb''" Null None]
    by blast
  have t3: "upld_free_cb srv0 = Some ''sg__httpupld_free_cb''"
    using set_upld_cbs_free_hook_unchecked [of "Some ''u''" Null "Some ''w''" "Some ''f''" "Some ''s''"
        "Some ''a''" srv0 pf0 None "Some ''req_cb''" "Some ''sg__err_cb''" Null None] c
    by blast
  show ?thesis using c t1 t2 t3 by blast
qed

section \<open>Listening: results\<close>

lemma addopt_Some: "sg__httpsrv_addopt ops opt v p = Some ops' \<longleftrightarrow>
   length ops < 14 \<and> ops' = ops @ [\<lparr>opt_option = opt, opt_value = v, opt_ptr_value = p\<rparr>]"
  by (auto simp: sg__httpsrv_addopt_def)

lemma notify_tuning_ext:
  "listen2_notify_tuning s ops = Some ops' \<Longrightarrow>
     \<exists>items. ops' = ops @ items \<and> MHD_OPTION_SOCK_ADDR \<notin> opt_option ` set items"
  by (auto simp: listen2_notify_tuning_def addopt_Some bind_eq_Some_conv split: if_splits)

lemma tls_ext:
  "listen2_tls key pwd cert trust dhparams priorities backlog flags ops = Some (flags', ops') \<Longrightarrow>
     (\<exists>items. ops' = ops @ items \<and> MHD_OPTION_SOCK_ADDR \<notin> opt_option ` set items) \<and>
     flags \<subseteq> flags' \<and> flags' \<subseteq> insert MHD_USE_TLS flags"
  by (auto simp: listen2_tls_def addopt_Some bind_eq_Some_conv split: if_splits option.splits)

lemma sock_addrs_append: "sock_addrs (xs @ ys) = sock_addrs xs @ sock_addrs ys"
  by (simp add: sock_addrs_def)

lemma sock_addrs_none: "MHD_OPTION_SOCK_ADDR \<notin> opt_option ` set items \<Longrightarrow> sock_addrs items = []"
  by (force simp: sock_addrs_def filter_empty_conv)

lemma start_Some:
  assumes "listen2_start nt s key pwd cert trust dhparams priorities port backlog flags ops = Some r"
  shows "\<exists>flags' ops'. lr_start_daemon r = Some (flags', port, ops') \<and>
           sock_addrs ops' = sock_addrs ops \<and> flags \<subseteq> flags' \<and> flags' \<subseteq> insert MHD_USE_TLS flags \<and>
           lr_ret r = (MHD_start_daemon nt flags' port ops' \<noteq> None) \<and>
           lr_srv r = Some (s\<lparr>handle := MHD_start_daemon nt flags' port ops'\<rparr>) \<and>
           lr_errno r = None \<and> lr_err_cb r = []"
proof -
  from assms obtain ops1 flags2 ops2 ops3 where
    a: "listen2_notify_tuning s ops = Some ops1" and
    b: "listen2_tls key pwd cert trust dhparams priorities backlog flags ops1 = Some (flags2, ops2)" and
    c: "sg__httpsrv_addopt ops2 MHD_OPTION_END (Num 0) PNull = Some ops3" and
    r: "r = \<lparr>lr_ret = (MHD_start_daemon nt flags2 port ops3 \<noteq> None),
             lr_srv = Some (s\<lparr>handle := MHD_start_daemon nt flags2 port ops3\<rparr>), lr_errno = None,
             lr_err_cb = [], lr_start_daemon = Some (flags2, port, ops3)\<rparr>"
    by (auto simp: listen2_start_def bind_eq_Some_conv Let_def)
  from notify_tuning_ext [OF a] have s1: "sock_addrs ops1 = sock_addrs ops"
    by (auto simp: sock_addrs_append sock_addrs_none)
  from tls_ext [OF b] have s2: "sock_addrs ops2 = sock_addrs ops1" and
    f: "flags \<subseteq> flags2" "flags2 \<subseteq> insert MHD_USE_TLS flags"
    by (auto simp: sock_addrs_append sock_addrs_none)
  from c have s3: "sock_addrs ops3 = sock_addrs ops2"
    by (auto simp: addopt_Some sock_addrs_def)
  show ?thesis using r s1 s2 s3 f by simp
qed

lemma notify_tuning_length:
  "length ops \<le> n \<Longrightarrow> n + 5 \<le> 14 \<Longrightarrow> \<exists>ops'. listen2_notify_tuning s ops = Some ops' \<and> length ops' \<le> n + 5"
  by (auto simp: listen2_notify_tuning_def sg__httpsrv_addopt_def)


lemma tls_length:
  "length ops \<le> 6 \<Longrightarrow> \<exists>flags' ops'. listen2_tls key pwd cert trust dhparams priorities backlog flags ops = Some (flags', ops') \<and> length ops' \<le> 13"
  by (auto simp: listen2_tls_def sg__httpsrv_addopt_def split: option.splits)

lemma start_defined_no_host:
  assumes "length ops \<le> 1"
  shows "\<exists>r. listen2_start nt s key pwd cert trust dhparams priorities port backlog flags ops = Some r"
proof -
  from notify_tuning_length [of ops 1 s] assms obtain ops1 where
    a: "listen2_notify_tuning s ops = Some ops1" and l1: "length ops1 \<le> 6" by auto
  from tls_length [OF l1, of key pwd cert trust dhparams priorities backlog flags] obtain flags2 ops2 where
    b: "listen2_tls key pwd cert trust dhparams priorities backlog flags ops1 = Some (flags2, ops2)"
    and l2: "length ops2 \<le> 13" by blast
  from l2 obtain ops3 where c: "sg__httpsrv_addopt ops2 MHD_OPTION_END (Num 0) PNull = Some ops3"
    by (auto simp: sg__httpsrv_addopt_def)
  show ?thesis using a b c by (simp add: listen2_start_def Let_def)
qed


lemma sock_addrs_items [simp]:
  "sock_addrs [logger_item] = []"
  "sock_addrs [logger_item, sock_addr_item sa] = [PSockaddr sa]"
  by (simp_all add: sock_addrs_def logger_item_def sock_addr_item_def)

lemma dual_stack_notin_flags [simp]: "MHD_USE_DUAL_STACK \<notin> listen2_flags threaded"
  by (simp add: listen2_flags_def)

lemma listen2_no_host:
  "listen_args_ok s \<Longrightarrow>
   sg__httpsrv_listen2 nt (Some s) key pwd cert trust dhparams priorities None port backlog threaded =
   listen2_start nt s key pwd cert trust dhparams priorities port backlog
     (insert MHD_USE_DUAL_STACK (listen2_flags threaded)) [logger_item]"
  by (auto simp: sg__httpsrv_listen2_def listen_args_ok_def sg__httpsrv_addopt_def Let_def
        logger_item_def)

lemma listen2_ipv4:
  "listen_args_ok s \<Longrightarrow> inet_pton_AF_INET nt h = Some a \<Longrightarrow>
   sg__httpsrv_listen2 nt (Some s) key pwd cert trust dhparams priorities (Some h) port backlog threaded =
   listen2_start nt s key pwd cert trust dhparams priorities port backlog
     (listen2_flags threaded) [logger_item, sock_addr_item (Sockaddr_in port a)]"
  by (auto simp: sg__httpsrv_listen2_def listen_args_ok_def sg__httpsrv_addopt_def Let_def
        logger_item_def sock_addr_item_def)

lemma listen2_ipv6:
  "listen_args_ok s \<Longrightarrow> inet_pton_AF_INET nt h = None \<Longrightarrow> inet_pton_AF_INET6 nt h = Some a6 \<Longrightarrow>
   sg__httpsrv_listen2 nt (Some s) key pwd cert trust dhparams priorities (Some h) port backlog threaded =
   listen2_start nt s key pwd cert trust dhparams priorities port backlog
     (insert MHD_USE_DUAL_STACK (listen2_flags threaded))
     [logger_item, sock_addr_item (Sockaddr_in6 port a6)]"
  by (auto simp: sg__httpsrv_listen2_def listen_args_ok_def sg__httpsrv_addopt_def Let_def
        logger_item_def sock_addr_item_def)

lemma listen2_bad_host:
  "listen_args_ok s \<Longrightarrow> inet_pton_AF_INET nt h = None \<Longrightarrow> inet_pton_AF_INET6 nt h = None \<Longrightarrow>
   sg__httpsrv_listen2 nt (Some s) key pwd cert trust dhparams priorities (Some h) port backlog threaded =
   Some \<lparr>lr_ret = False, lr_srv = Some s, lr_errno = Some EINVAL,
         lr_err_cb = [vsnprintf (SG_ERR_SIZE nt) (''Invalid host name: '' @ h @ ''.'' @ [CHR 0x0A])],
         lr_start_daemon = None\<rparr>"
  by (auto simp: sg__httpsrv_listen2_def listen_args_ok_def sg__httpsrv_addopt_def Let_def)

lemma listen2_passed:
  assumes ok: "listen_args_ok s"
    and r: "sg__httpsrv_listen2 nt (Some s) key pwd cert trust dhparams priorities hostname port backlog
              threaded = Some r"
  shows "lr_start_daemon r \<noteq> None \<or> lr_err_cb r \<noteq> []"
proof -
  have started: "lr_start_daemon r \<noteq> None"
    if "listen2_start nt s key pwd cert trust dhparams priorities port backlog flags ops = Some r"
    for flags ops
    using start_Some [OF that] by auto
  show ?thesis
  proof (cases hostname)
    case None
    with r listen2_no_host [OF ok, of nt key pwd cert trust dhparams priorities port backlog threaded]
    show ?thesis using started by simp
  next
    case (Some h)
    note hn = this
    show ?thesis
    proof (cases "inet_pton_AF_INET nt h")
      case (Some a)
      with r hn listen2_ipv4 [OF ok Some, of key pwd cert trust dhparams priorities port backlog threaded]
      show ?thesis using started by simp
    next
      case None
      show ?thesis
      proof (cases "inet_pton_AF_INET6 nt h")
        case (Some a6)
        with r hn listen2_ipv6 [OF ok None Some, of key pwd cert trust dhparams priorities port backlog threaded]
        show ?thesis using started by simp
      next
        case n6: None
        from r hn listen2_bad_host [OF ok None n6, of key pwd cert trust dhparams priorities port backlog threaded]
        have "lr_err_cb r \<noteq> []" by auto
        then show ?thesis ..
      qed
    qed
  qed
qed

lemma listen2_no_host_started:
  assumes ok: "listen_args_ok s"
  shows "\<exists>r. sg__httpsrv_listen2 nt (Some s) key pwd cert trust dhparams priorities None port backlog
              threaded = Some r \<and> lr_start_daemon r \<noteq> None \<and> lr_errno r = None \<and>
              lr_ret r = (\<exists>h. lr_srv r = Some (s\<lparr>handle := Some h\<rparr>))"
proof -
  let ?flags = "insert MHD_USE_DUAL_STACK (listen2_flags threaded)"
  from start_defined_no_host [of "[logger_item]" nt s key pwd cert trust dhparams priorities port backlog ?flags]
  obtain r where r: "listen2_start nt s key pwd cert trust dhparams priorities port backlog ?flags [logger_item] = Some r"
    by auto
  from start_Some [OF r] obtain flags' ops' where
    p: "lr_start_daemon r = Some (flags', port, ops')"
       "lr_ret r = (MHD_start_daemon nt flags' port ops' \<noteq> None)"
       "lr_srv r = Some (s\<lparr>handle := MHD_start_daemon nt flags' port ops'\<rparr>)"
       "lr_errno r = None"
    by blast
  have "lr_ret r = (\<exists>h. lr_srv r = Some (s\<lparr>handle := Some h\<rparr>))"
  proof
    assume "lr_ret r"
    with p(2) obtain h where "MHD_start_daemon nt flags' port ops' = Some h" by auto
    with p(3) show "\<exists>h. lr_srv r = Some (s\<lparr>handle := Some h\<rparr>)" by auto
  next
    assume "\<exists>h. lr_srv r = Some (s\<lparr>handle := Some h\<rparr>)"
    then obtain h where "lr_srv r = Some (s\<lparr>handle := Some h\<rparr>)" ..
    with p(3) have "s\<lparr>handle := MHD_start_daemon nt flags' port ops'\<rparr> = s\<lparr>handle := Some h\<rparr>" by simp
    then have "handle (s\<lparr>handle := MHD_start_daemon nt flags' port ops'\<rparr>) = handle (s\<lparr>handle := Some h\<rparr>)"
      by (rule arg_cong)
    then have "MHD_start_daemon nt flags' port ops' = Some h" by simp
    with p(2) show "lr_ret r" by simp
  qed
  with listen2_no_host [OF ok, of nt key pwd cert trust dhparams priorities port backlog threaded] r p
  show ?thesis by simp
qed

lemma srv0_passes_check: "upld_cb srv0 \<noteq> None \<and> upld_write_cb srv0 \<noteq> None \<and> upld_save_cb srv0 \<noteq> None \<and>
    upld_save_as_cb srv0 \<noteq> None \<and> uplds_dir srv0 \<noteq> None \<and> 256 \<le> post_buf_size srv0"
  by (simp add: srv0_def)


text \<open>
  C3, as the code has it. Listen returns false with \<open>EINVAL\<close>, without calling the error
  callback and without starting the engine, whenever the upload callback, the write hook,
  the save hook, the save-as hook or the uploads directory is unset or the post-buffer
  size is below 256. The free hook is not part of the check. When all of the checked
  fields are set and the size is at least 256 the check passes: every result is either an
  attempt to start the engine or a host failure reported through the error callback, and
  without a host name the engine start is always attempted and decides the return value.
\<close>

theorem listen_validation:
  "(upld_cb s = None \<or> upld_write_cb s = None \<or> upld_save_cb s = None \<or>
    upld_save_as_cb s = None \<or> uplds_dir s = None \<or> post_buf_size s < 256 \<longrightarrow>
      sg__httpsrv_listen2 nt (Some s) key pwd cert trust dhparams priorities hostname port backlog threaded
        = Some \<lparr>lr_ret = False, lr_srv = Some s, lr_errno = Some EINVAL, lr_err_cb = [],
                 lr_start_daemon = None\<rparr>) \<and>
   (upld_cb s \<noteq> None \<and> upld_write_cb s \<noteq> None \<and> upld_save_cb s \<noteq> None \<and>
    upld_save_as_cb s \<noteq> None \<and> uplds_dir s \<noteq> None \<and> 256 \<le> post_buf_size s \<longrightarrow>
      (\<forall>r. sg__httpsrv_listen2 nt (Some s) key pwd cert trust dhparams priorities hostname port backlog
              threaded = Some r \<longrightarrow>
           lr_start_daemon r \<noteq> None \<or> lr_err_cb r \<noteq> []) \<and>
      (\<exists>r. sg__httpsrv_listen2 nt (Some s) key pwd cert trust dhparams priorities None port backlog
              threaded = Some r \<and> lr_start_daemon r \<noteq> None \<and> lr_errno r = None \<and>
              lr_ret r = (\<exists>h. lr_srv r = Some (s\<lparr>handle := Some h\<rparr>))))"
proof (intro conjI impI allI)
  assume "upld_cb s = None \<or> upld_write_cb s = None \<or> upld_save_cb s = None \<or>
    upld_save_as_cb s = None \<or> uplds_dir s = None \<or> post_buf_size s < 256"
  then show "sg__httpsrv_listen2 nt (Some s) key pwd cert trust dhparams priorities hostname port backlog threaded
        = Some \<lparr>lr_ret = False, lr_srv = Some s, lr_errno = Some EINVAL, lr_err_cb = [],
                 lr_start_daemon = None\<rparr>"
    by (simp add: sg__httpsrv_listen2_def)
next
  fix r
  assume ok: "upld_cb s \<noteq> None \<and> upld_write_cb s \<noteq> None \<and> upld_save_cb s \<noteq> None \<and>
    upld_save_as_cb s \<noteq> None \<and> uplds_dir s \<noteq> None \<and> 256 \<le> post_buf_size s"
    and r: "sg__httpsrv_listen2 nt (Some s) key pwd cert trust dhparams priorities hostname port backlog
              threaded = Some r"
  from ok have ok': "listen_args_ok s" unfolding listen_args_ok_def .
  from listen2_passed [OF ok' r] show "lr_start_daemon r \<noteq> None \<or> lr_err_cb r \<noteq> []" .
next
  assume ok: "upld_cb s \<noteq> None \<and> upld_write_cb s \<noteq> None \<and> upld_save_cb s \<noteq> None \<and>
    upld_save_as_cb s \<noteq> None \<and> uplds_dir s \<noteq> None \<and> 256 \<le> post_buf_size s"
  from ok have ok': "listen_args_ok s" unfolding listen_args_ok_def .
  from listen2_no_host_started [OF ok']
  show "\<exists>r. sg__httpsrv_listen2 nt (Some s) key pwd cert trust dhparams priorities None port backlog
              threaded = Some r \<and> lr_start_daemon r \<noteq> None \<and> lr_errno r = None \<and>
              lr_ret r = (\<exists>h. lr_srv r = Some (s\<lparr>handle := Some h\<rparr>))" .
qed

theorem listen_validation_witness:
  "uplds_dir (srv0\<lparr>uplds_dir := None\<rparr>) = None \<and>
   sg__httpsrv_listen2 net0 (Some (srv0\<lparr>uplds_dir := None\<rparr>)) None None None None None None None 8080 0 False
     = Some \<lparr>lr_ret = False, lr_srv = Some (srv0\<lparr>uplds_dir := None\<rparr>), lr_errno = Some EINVAL,
              lr_err_cb = [], lr_start_daemon = None\<rparr> \<and>
   upld_cb srv0 \<noteq> None \<and> upld_write_cb srv0 \<noteq> None \<and> upld_save_cb srv0 \<noteq> None \<and>
   upld_save_as_cb srv0 \<noteq> None \<and> uplds_dir srv0 \<noteq> None \<and> 256 \<le> post_buf_size srv0 \<and>
   (\<exists>r. sg__httpsrv_listen2 net0 (Some srv0) None None None None None None None 8080 0 False = Some r \<and>
        lr_start_daemon r \<noteq> None \<and> lr_errno r = None)"
proof -
  have a: "uplds_dir (srv0\<lparr>uplds_dir := None\<rparr>) = None" by simp
  have b: "sg__httpsrv_listen2 net0 (Some (srv0\<lparr>uplds_dir := None\<rparr>)) None None None None None None None 8080 0 False
     = Some \<lparr>lr_ret = False, lr_srv = Some (srv0\<lparr>uplds_dir := None\<rparr>), lr_errno = Some EINVAL,
              lr_err_cb = [], lr_start_daemon = None\<rparr>"
    using a listen_validation [of "srv0\<lparr>uplds_dir := None\<rparr>" net0 None None None None None None None 8080 0 False]
    by blast
  have c: "\<exists>r. sg__httpsrv_listen2 net0 (Some srv0) None None None None None None None 8080 0 False = Some r \<and>
        lr_start_daemon r \<noteq> None \<and> lr_errno r = None"
    using srv0_passes_check listen_validation [of srv0 net0 None None None None None None None 8080 0 False]
    by blast
  show ?thesis using a b c srv0_passes_check by blast
qed


lemma eval_listen_no_free:
  "sg_httpsrv_listen net0 (Some srv_no_free) 8080 False = 
    Some \<lparr>lr_ret = True, lr_srv = Some (srv_no_free\<lparr>handle := Some 1\<rparr>), lr_errno = None, lr_err_cb = [],
       lr_start_daemon = Some (insert MHD_USE_DUAL_STACK (listen2_flags False), 8080,
         [logger_item,
          \<lparr>opt_option = MHD_OPTION_NOTIFY_COMPLETED, opt_value = Fn ''sg__httpsrv_rcc'', opt_ptr_value = PSrv\<rparr>,
          \<lparr>opt_option = MHD_OPTION_NOTIFY_CONNECTION, opt_value = Fn ''sg__httpsrv_ncc'', opt_ptr_value = PSrv\<rparr>,
          \<lparr>opt_option = MHD_OPTION_END, opt_value = Num 0, opt_ptr_value = PNull\<rparr>])\<rparr>"
  by (simp add: sg_httpsrv_listen_def sg__httpsrv_listen_def sg__httpsrv_listen2_def srv_no_free_def
      srv0_def net0_def listen2_start_def listen2_notify_tuning_def listen2_tls_def
      sg__httpsrv_addopt_def logger_item_def Let_def)

text \<open>
  C3 as stated fails for the free hook: the constructed server whose upload hooks were set
  again with a null free hook listens successfully.
\<close>

theorem listen_free_hook_counterexample:
  "sg_httpsrv_set_upld_cbs (Some srv0) (Some ''sg__httpupld_cb'') Self (Some ''sg__httpupld_write_cb'')
      None (Some ''sg__httpupld_save_cb'') (Some ''sg__httpupld_save_as_cb'') = (OK, Some srv_no_free) \<and>
   upld_free_cb srv_no_free = None \<and>
   map_option lr_ret (sg_httpsrv_listen net0 (Some srv_no_free) 8080 False) = Some True \<and>
   map_option lr_errno (sg_httpsrv_listen net0 (Some srv_no_free) 8080 False) = Some None"
  by (simp add: eval_listen_no_free) (simp add: sg_httpsrv_set_upld_cbs_def srv_no_free_def srv0_def)


text \<open>
  With TLS, all optional TLS material, a backlog, a host name and the three tuning options
  the function writes fifteen entries into its fourteen-entry array.
\<close>

lemma listen2_options_overrun:
  "sg__httpsrv_listen2 net0 (Some srv_full) (Some ''key'') (Some ''pwd'') (Some ''cert'') (Some ''trust'')
     (Some ''dh'') (Some ''prio'') (Some ''127.0.0.1'') 8080 16 False = None"
  by (simp add: sg__httpsrv_listen2_def srv_full_def
      srv0_def net0_def listen2_start_def listen2_notify_tuning_def listen2_tls_def
      sg__httpsrv_addopt_def Let_def)








section \<open>Connection dispatcher: results\<close>

lemma ahc_canceled:
  assumes "canceled (auth req)"
  shows "sg__httpsrv_ahc d srv e c url m v data n (Some req) =
     (if info_flag (socket_context d) e c
      then \<lparr>ahc_ret = MHD_NO, ahc_engine = e, ahc_con_cls = Some req,
            ahc_upld_data_size = n, ahc_calls = []\<rparr>
      else ahc_finish d e c req n [])"
  using assms by (simp add: sg__httpsrv_ahc_def)






section \<open>Auth Gate: results\<close>



lemma set_realm_calls_set:
  "realm a \<noteq> None \<Longrightarrow> set_realm_calls (Some a) vs = (replicate (length vs) EALREADY, Some a)"
  by (induction vs) (auto simp: sg_httpauth_set_realm_def)

text \<open>
  C6. The realm is write-once. On an Auth object without a realm the first call with a
  value returns 0 and stores it; every later call, whatever its value, returns
  \<open>EALREADY\<close> and the realm stays the value of the first call.
\<close>

theorem set_realm_write_once:
  "(realm a = None \<longrightarrow>
      sg_httpauth_set_realm (Some a) (Some v) = (OK, Some (a\<lparr>realm := Some v\<rparr>)) \<and>
      set_realm_calls (Some a) (v # vs) =
        (OK # replicate (length vs) EALREADY, Some (a\<lparr>realm := Some v\<rparr>))) \<and>
   (realm a \<noteq> None \<longrightarrow>
      sg_httpauth_set_realm (Some a) (Some v) = (EALREADY, Some a))"
proof (intro conjI impI)
  assume n: "realm a = None"
  then show first: "sg_httpauth_set_realm (Some a) (Some v) = (OK, Some (a\<lparr>realm := Some v\<rparr>))"
    by (simp add: sg_httpauth_set_realm_def)
  have "realm (a\<lparr>realm := Some v\<rparr>) \<noteq> None" by simp
  from set_realm_calls_set [OF this, of vs] first
  show "set_realm_calls (Some a) (v # vs) =
        (OK # replicate (length vs) EALREADY, Some (a\<lparr>realm := Some v\<rparr>))"
    by simp
next
  assume "realm a \<noteq> None"
  then show "sg_httpauth_set_realm (Some a) (Some v) = (EALREADY, Some a)"
    by (auto simp: sg_httpauth_set_realm_def)
qed

theorem set_realm_write_once_witness:
  "realm auth0 = None \<and>
   set_realm_calls (Some auth0) [''foo'', ''foo'', ''bar''] =
     ([OK, EALREADY, EALREADY], Some (auth0\<lparr>realm := Some ''foo''\<rparr>)) \<and>
   realm (auth0\<lparr>realm := Some ''foo''\<rparr>) \<noteq> None \<and>
   sg_httpauth_set_realm (Some (auth0\<lparr>realm := Some ''foo''\<rparr>)) (Some ''bar'') =
     (EALREADY, Some (auth0\<lparr>realm := Some ''foo''\<rparr>))"
proof -
  have a: "realm auth0 = None" by (simp add: auth0_def)
  have b: "realm (auth0\<lparr>realm := Some ''foo''\<rparr>) \<noteq> None" by simp
  have r: "OK # replicate (length [''foo'', ''bar'']) EALREADY = [OK, EALREADY, EALREADY]"
    by simp
  from set_realm_write_once [of auth0 "''foo''" "[''foo'', ''bar'']"] a
  have "set_realm_calls (Some auth0) (''foo'' # [''foo'', ''bar'']) =
     (OK # replicate (length [''foo'', ''bar'']) EALREADY, Some (auth0\<lparr>realm := Some ''foo''\<rparr>))"
    by blast
  then have c: "set_realm_calls (Some auth0) [''foo'', ''foo'', ''bar''] =
     ([OK, EALREADY, EALREADY], Some (auth0\<lparr>realm := Some ''foo''\<rparr>))"
    unfolding r .
  from set_realm_write_once [of "auth0\<lparr>realm := Some ''foo''\<rparr>" "''bar''" "[]"] b
  have d: "sg_httpauth_set_realm (Some (auth0\<lparr>realm := Some ''foo''\<rparr>)) (Some ''bar'') =
     (EALREADY, Some (auth0\<lparr>realm := Some ''foo''\<rparr>))"
    by blast
  show ?thesis using a b c d by blast
qed







section \<open>Request map accessors: results\<close>

lemma strmap_count_null: "sg_strmap_count None = 0"
  by (simp add: sg_strmap_count_def)

lemma strmap_count_add: "sg_strmap_count (sg_strmap_add m k v) = sg_strmap_count m + 1"
  by (simp add: sg_strmap_count_def sg_strmap_add_def split: option.splits)

lemma strmap_get_add:
  "sg_strmap_get m k = None \<Longrightarrow> sg_strmap_get (sg_strmap_add m k v) k = Some v"
  by (auto simp: sg_strmap_get_def sg_strmap_add_def map_add_def split: option.splits)

lemma deref_store: "deref (store r p m) p' = (if p' = p then m else deref r p')"
  by (cases p; cases p') auto

text \<open>
  C8. For a non-null request each of the four accessors returns a non-null reference,
  also while the slot behind it is null; a null slot reads as the empty map (count 0); an
  entry added through a slot is visible through the same reference (the count grows by
  one, a name that was absent now has the added value) and leaves the other three maps
  alone. The accessors return null, with \<open>EINVAL\<close>, only for the null request.
\<close>

theorem map_accessors_never_null:
  "sg_httpreq_headers (Some r) = (Some Headers_slot, None) \<and>
   sg_httpreq_cookies (Some r) = (Some Cookies_slot, None) \<and>
   sg_httpreq_params (Some r) = (Some Params_slot, None) \<and>
   sg_httpreq_fields (Some r) = (Some Fields_slot, None) \<and>
   sg_httpreq_headers None = (None, Some EINVAL) \<and>
   sg_httpreq_cookies None = (None, Some EINVAL) \<and>
   sg_httpreq_params None = (None, Some EINVAL) \<and>
   sg_httpreq_fields None = (None, Some EINVAL) \<and>
   (deref r p = None \<longrightarrow> sg_strmap_count (deref r p) = 0) \<and>
   sg_strmap_count (deref (sg_strmap_add_at r p k v) p) = sg_strmap_count (deref r p) + 1 \<and>
   (sg_strmap_get (deref r p) k = None \<longrightarrow>
      sg_strmap_get (deref (sg_strmap_add_at r p k v) p) k = Some v) \<and>
   (p' \<noteq> p \<longrightarrow> deref (sg_strmap_add_at r p k v) p' = deref r p')"
  by (simp add: sg_httpreq_headers_def sg_httpreq_cookies_def sg_httpreq_params_def
        sg_httpreq_fields_def sg_strmap_add_at_def deref_store strmap_count_add strmap_get_add
        strmap_count_null)

theorem map_accessors_never_null_witness:
  "deref req0 Headers_slot = None \<and>
   sg_httpreq_headers (Some req0) = (Some Headers_slot, None) \<and>
   sg_strmap_count (deref req0 Headers_slot) = 0 \<and>
   sg_strmap_get (deref req0 Headers_slot) ''foo'' = None \<and>
   sg_strmap_count (deref (sg_strmap_add_at req0 Headers_slot ''foo'' ''bar'') Headers_slot) =
     sg_strmap_count (deref req0 Headers_slot) + 1 \<and>
   sg_strmap_get (deref (sg_strmap_add_at req0 Headers_slot ''foo'' ''bar'') Headers_slot) ''foo''
     = Some ''bar'' \<and>
   Cookies_slot \<noteq> Headers_slot \<and>
   deref (sg_strmap_add_at req0 Headers_slot ''foo'' ''bar'') Cookies_slot = deref req0 Cookies_slot"
proof -
  have a: "deref req0 Headers_slot = None"
    by (simp add: req0_def)
  have g: "sg_strmap_get (deref req0 Headers_slot) ''foo'' = None"
    by (simp add: req0_def sg_strmap_get_def)
  have n: "Cookies_slot \<noteq> Headers_slot" by simp
  note t = map_accessors_never_null [of req0 Headers_slot "''foo''" "''bar''" Cookies_slot]
  from t a g n show ?thesis by blast
qed

end
